theory Spec2Isabelle
  imports Main "HOL-Library.Word"
begin

section \<open>Data model of the mod-mail relay\<close>

text \<open>
  Identifiers are snowflakes, unsigned 64-bit integers; the zero value of the type is
  \<open>0\<close>, which is what a Go map lookup yields for a missing key. A Go \<open>error\<close> is
  represented by its message. Embeds, files and attachments are values of the chat
  library that the listeners only pass along, so their types are left abstract.
\<close>

type_synonym snowflake = "64 word"
type_synonym go_error = string

typedecl embed
typedecl discord_file
typedecl attachment

text \<open>A message, with the fields the listeners read.\<close>

record message =
  ID :: snowflake
  WebhookID :: "snowflake option"
  Attachments :: "attachment list"

record message_create =
  Embeds :: "embed list"
  Files :: "discord_file list"

text \<open>In an update the embeds are passed by pointer: \<open>Some\<close> is a non-nil pointer.\<close>

record message_update =
  Embeds' :: "embed list option"
  Files' :: "discord_file list"

text \<open>
  The transport. Each call of the REST client either fails with an error or succeeds; what
  it answers is outside the program, so the client is a record of answer functions.
\<close>

record rest =
  CreateMessage :: "snowflake \<Rightarrow> message_create \<Rightarrow> go_error + message"
  UpdateMessage :: "snowflake \<Rightarrow> snowflake \<Rightarrow> message_update \<Rightarrow> go_error + message"
  DeleteMessage :: "snowflake \<Rightarrow> snowflake \<Rightarrow> go_error option"
  SendTyping :: "snowflake \<Rightarrow> go_error option"

record client =
  Rest :: rest

text \<open>
  The three guild message events and the typing event embed the same generic event: the
  client, the channel id, the message id and the message.
\<close>

record guild_message_event =
  Client :: client
  ChannelID :: snowflake
  MessageID :: snowflake
  Message :: message

record guild_typing_event =
  Client' :: client
  ChannelID' :: snowflake

text \<open>
  \<open>generateEmbeds\<close> and \<open>filesFromAttachments\<close> are package functions whose bodies
  are not part of the sources at hand; the listeners are modelled for any such pair.
\<close>

record helpers =
  generateEmbeds :: "message \<Rightarrow> embed list"
  filesFromAttachments :: "client \<Rightarrow> attachment list \<Rightarrow> discord_file list"

text \<open>
  The relay state: the link map from a staff thread to the user's DM channel, and the two
  message maps. The maps are taken to be allocated (a Go write to a nil map panics); the
  mutex \<open>Mu\<close> shows in the effects below.
\<close>

record ModMail =
  ThreadDMs :: "snowflake \<rightharpoonup> snowflake"
  dmMessageIDs :: "snowflake \<rightharpoonup> snowflake"
  threadMessageIDs :: "snowflake \<rightharpoonup> snowflake"

text \<open>
  What a listener does besides changing the maps, in program order: taking and releasing
  the mutex, each access to one of the three maps, each REST call, each logged error.
\<close>

datatype store_map = ThreadDMs_map | dmMessageIDs_map | threadMessageIDs_map

datatype effect =
    Lock
  | Unlock
  | MapLookup store_map snowflake
  | MapStore store_map snowflake snowflake
  | MapDelete store_map snowflake
  | RestCreateMessage snowflake message_create
  | RestUpdateMessage snowflake snowflake message_update
  | RestDeleteMessage snowflake snowflake
  | RestSendTyping snowflake
  | LogError string go_error

text \<open>A lookup without the \<open>ok\<close> result: the zero value when the key is missing.\<close>

definition lookup0 :: "(snowflake \<rightharpoonup> snowflake) \<Rightarrow> snowflake \<Rightarrow> snowflake" where
  "lookup0 mp k = (case mp k of None \<Rightarrow> 0 | Some v \<Rightarrow> v)"

section \<open>The guild-side listeners\<close>

text \<open>
  Each listener returns the new state and its effects. The deferred \<open>Unlock\<close> runs at
  every return after the \<open>Lock\<close>, so it ends every such trace.
\<close>

definition guildMessageCreateListener ::
  "helpers \<Rightarrow> ModMail \<Rightarrow> guild_message_event \<Rightarrow> ModMail \<times> effect list" where
  "guildMessageCreateListener h m event =
     (if WebhookID (Message event) \<noteq> None then (m, [])
      else
        (case ThreadDMs m (ChannelID event) of
           None \<Rightarrow> (m, [Lock, MapLookup ThreadDMs_map (ChannelID event), Unlock])
         | Some dmID \<Rightarrow>
             (let messageCreate =
                    \<lparr>Embeds = generateEmbeds h (Message event),
                     Files = filesFromAttachments h (Client event) (Attachments (Message event))\<rparr>
              in case CreateMessage (Rest (Client event)) dmID messageCreate of
                   Inl err \<Rightarrow>
                     (m, [Lock, MapLookup ThreadDMs_map (ChannelID event),
                          RestCreateMessage dmID messageCreate,
                          LogError ''failed to create dm message: '' err, Unlock])
                 | Inr msg \<Rightarrow>
                     (m\<lparr>dmMessageIDs := (dmMessageIDs m)(ID (Message event) \<mapsto> ID msg)\<rparr>,
                      [Lock, MapLookup ThreadDMs_map (ChannelID event),
                       RestCreateMessage dmID messageCreate,
                       MapStore dmMessageIDs_map (ID (Message event)) (ID msg), Unlock]))))"

definition guildMessageUpdateListener ::
  "helpers \<Rightarrow> ModMail \<Rightarrow> guild_message_event \<Rightarrow> ModMail \<times> effect list" where
  "guildMessageUpdateListener h m event =
     (case dmMessageIDs m (ID (Message event)) of
        None \<Rightarrow> (m, [Lock, MapLookup dmMessageIDs_map (ID (Message event)), Unlock])
      | Some dmMessageID \<Rightarrow>
          (let embeds = generateEmbeds h (Message event);
               messageUpdate =
                 \<lparr>Embeds' = Some embeds,
                  Files' = filesFromAttachments h (Client event) (Attachments (Message event))\<rparr>;
               dmChannelID = lookup0 (ThreadDMs m) (ChannelID event);
               pre = [Lock, MapLookup dmMessageIDs_map (ID (Message event)),
                      MapLookup ThreadDMs_map (ChannelID event),
                      RestUpdateMessage dmChannelID dmMessageID messageUpdate]
           in case UpdateMessage (Rest (Client event)) dmChannelID dmMessageID messageUpdate of
                Inl err \<Rightarrow> (m, pre @ [LogError ''failed to update dm message: '' err, Unlock])
              | Inr _ \<Rightarrow> (m, pre @ [Unlock])))"

definition guildMessageDeleteListener ::
  "ModMail \<Rightarrow> guild_message_event \<Rightarrow> ModMail \<times> effect list" where
  "guildMessageDeleteListener m event =
     (case dmMessageIDs m (MessageID event) of
        None \<Rightarrow> (m, [Lock, MapLookup dmMessageIDs_map (MessageID event), Unlock])
      | Some dmMessageID \<Rightarrow>
          (let m' = m\<lparr>threadMessageIDs := (threadMessageIDs m)(ID (Message event) := None)\<rparr>;
               dmChannelID = lookup0 (ThreadDMs m') (ChannelID event);
               pre = [Lock, MapLookup dmMessageIDs_map (MessageID event),
                      MapDelete threadMessageIDs_map (ID (Message event)),
                      MapLookup ThreadDMs_map (ChannelID event),
                      RestDeleteMessage dmChannelID dmMessageID]
           in case DeleteMessage (Rest (Client event)) dmChannelID dmMessageID of
                Some err \<Rightarrow> (m', pre @ [LogError ''failed to delete dm message: '' err, Unlock])
              | None \<Rightarrow> (m', pre @ [Unlock])))"

definition guildMemberTypingStartListener ::
  "ModMail \<Rightarrow> guild_typing_event \<Rightarrow> ModMail \<times> effect list" where
  "guildMemberTypingStartListener m event =
     (case ThreadDMs m (ChannelID' event) of
        None \<Rightarrow> (m, [Lock, MapLookup ThreadDMs_map (ChannelID' event), Unlock])
      | Some dmChannelID \<Rightarrow>
          (let pre = [Lock, MapLookup ThreadDMs_map (ChannelID' event),
                      RestSendTyping dmChannelID]
           in case SendTyping (Rest (Client' event)) dmChannelID of
                Some err \<Rightarrow> (m, pre @ [LogError ''failed to send dm typing: '' err, Unlock])
              | None \<Rightarrow> (m, pre @ [Unlock])))"

section \<open>The mutex in the effects\<close>

fun is_rest_call :: "effect \<Rightarrow> bool" where
  "is_rest_call (RestCreateMessage _ _) = True"
| "is_rest_call (RestUpdateMessage _ _ _) = True"
| "is_rest_call (RestDeleteMessage _ _) = True"
| "is_rest_call (RestSendTyping _) = True"
| "is_rest_call _ = False"

text \<open>
  \<open>rest_outside_lock held t\<close>: scanning \<open>t\<close> from a point where the mutex is held or
  not, no REST call happens while it is held.
\<close>

fun rest_outside_lock :: "bool \<Rightarrow> effect list \<Rightarrow> bool" where
  "rest_outside_lock held [] = True"
| "rest_outside_lock held (Lock # t) = rest_outside_lock True t"
| "rest_outside_lock held (Unlock # t) = rest_outside_lock False t"
| "rest_outside_lock held (e # t) = (\<not> (is_rest_call e \<and> held) \<and> rest_outside_lock held t)"

text \<open>
  \<open>one_critical_section t\<close>: the trace is empty, or it starts with the one \<open>Lock\<close>,
  ends with the one \<open>Unlock\<close>, and everything else lies between the two.
\<close>

definition one_critical_section :: "effect list \<Rightarrow> bool" where
  "one_critical_section t =
     (case t of
        [] \<Rightarrow> True
      | e # r \<Rightarrow> e = Lock \<and> r \<noteq> [] \<and> last r = Unlock \<and>
                 list_all (\<lambda>x. x \<noteq> Lock \<and> x \<noteq> Unlock) (butlast r))"

section \<open>Shutdown\<close>

record ModMailConfig =
  Threads :: "snowflake \<rightharpoonup> snowflake"

text \<open>The configuration, with the one field the shutdown path writes (\<open>ModMail\<close>).\<close>

record Config =
  ModMail' :: ModMailConfig

record Butler =
  ModMail :: ModMail
  Config :: Config

text \<open>
  What the host answers: the results of opening the gateway and the HTTP server and of
  saving a configuration, and whether a termination signal ever arrives.
\<close>

record host =
  OpenGateway :: "go_error option"
  OpenHTTPServer :: "go_error option"
  SaveConfig :: "Config \<Rightarrow> go_error option"
  signal :: bool

datatype butler_effect =
    DoOpenGateway
  | DoOpenHTTPServer
  | DoSignalNotify
  | DoClientClose
  | DoDBClose
  | DoModMailClose
  | DoSaveConfig Config
  | LogInfo string
  | LogErrorf string go_error

text \<open>
  Modelled from the spec: the method \<open>Close\<close> of the relay is called by
  \<open>StartAndBlock\<close> but its body is missing from the sources. The spec's \<open>snapshot()\<close>
  "returns the full set of active Links for persistence; does not include MessageLinks".
\<close>

definition Close :: "ModMail \<Rightarrow> (snowflake \<rightharpoonup> snowflake)" where
  "Close m = ThreadDMs m"

text \<open>The deferred function of \<open>StartAndBlock\<close>.\<close>

definition shutdown :: "host \<Rightarrow> Butler \<Rightarrow> Butler \<times> butler_effect list" where
  "shutdown hst b =
     (let b' = b\<lparr>Config := (Config b)\<lparr>ModMail' := (ModMail' (Config b))\<lparr>Threads := Close (ModMail b)\<rparr>\<rparr>\<rparr>;
          pre = [LogInfo ''Shutting down...'', DoClientClose, DoDBClose, DoModMailClose,
                 DoSaveConfig (Config b')]
      in case SaveConfig hst (Config b') of
           Some err \<Rightarrow> (b', pre @ [LogErrorf ''Failed to save config: %s'' err])
         | None \<Rightarrow> (b', pre))"

text \<open>
  \<open>StartAndBlock\<close> waits for a signal; when none ever arrives it does not return, which
  is the result \<open>None\<close>.
\<close>

definition StartAndBlock :: "host \<Rightarrow> Butler \<Rightarrow> (Butler \<times> butler_effect list) option" where
  "StartAndBlock hst b =
     (let t1 = DoOpenGateway #
                 (case OpenGateway hst of
                    Some err \<Rightarrow> [LogErrorf ''Failed to connect to gateway: %s'' err]
                  | None \<Rightarrow> []);
          t2 = DoOpenHTTPServer #
                 (case OpenHTTPServer hst of
                    Some err \<Rightarrow> [LogErrorf ''Failed to start http server: %s'' err]
                  | None \<Rightarrow> []);
          t3 = [LogInfo ''Client is running. Press CTRL-C to exit.'', DoSignalNotify]
      in if signal hst
         then (case shutdown hst b of (b', t4) \<Rightarrow> Some (b', t1 @ t2 @ t3 @ t4))
         else None)"

section \<open>The Link Store of the specification\<close>

text \<open>
  Modelled from the spec: the code that opens and closes a conversation is missing from
  the sources, which only look \<open>ThreadDMs\<close> up. The store is modelled with the spec's
  data: a Link has a \<open>staffChannelID\<close> and a \<open>userChannelID\<close>, a MessageLink an
  \<open>originMessageID\<close>, a \<open>mirrorMessageID\<close> and a \<open>direction\<close>, and each MessageLink
  belongs to the Link it was recorded for.
\<close>

record Link =
  staffChannelID :: snowflake
  userChannelID :: snowflake

datatype direction = StaffToUser | UserToStaff

record MessageLink =
  originMessageID :: snowflake
  mirrorMessageID :: snowflake
  direction :: direction

record LinkStore =
  links :: "Link list"
  messageLinks :: "(Link \<times> MessageLink) list"

datatype store_error = ConflictError

text \<open>
  Modelled from the spec: \<open>put\<close> of the Link Store is missing from the sources. The
  spec: "\<open>put(link)\<close>: inserts a Link; fails with \<open>ConflictError\<close> if either endpoint is
  already mapped".
\<close>

definition put :: "Link \<Rightarrow> LinkStore \<Rightarrow> store_error + LinkStore" where
  "put l s =
     (if list_ex (\<lambda>l'. staffChannelID l' = staffChannelID l \<or> userChannelID l' = userChannelID l)
           (links s)
      then Inl ConflictError
      else Inr (s\<lparr>links := l # links s\<rparr>))"

text \<open>
  Modelled from the spec: \<open>remove\<close> of the Link Store is missing from the sources. The
  spec: "\<open>remove(link)\<close>: deletes the link and all its associated MessageLinks".
\<close>

definition remove :: "Link \<Rightarrow> LinkStore \<Rightarrow> LinkStore" where
  "remove l s =
     s\<lparr>links := filter (\<lambda>l'. l' \<noteq> l) (links s),
       messageLinks := filter (\<lambda>p. fst p \<noteq> l) (messageLinks s)\<rparr>"

datatype store_op = Put Link | Remove Link

text \<open>A \<open>put\<close> that fails leaves the store as it was.\<close>

fun apply_op :: "LinkStore \<Rightarrow> store_op \<Rightarrow> LinkStore" where
  "apply_op s (Put l) = (case put l s of Inl _ \<Rightarrow> s | Inr s' \<Rightarrow> s')"
| "apply_op s (Remove l) = remove l s"

definition run_ops :: "LinkStore \<Rightarrow> store_op list \<Rightarrow> LinkStore" where
  "run_ops s ops = foldl apply_op s ops"

text \<open>No two links of the store share a staff channel, and no two share a user channel.\<close>

definition bijection :: "LinkStore \<Rightarrow> bool" where
  "bijection s =
     (distinct (map staffChannelID (links s)) \<and> distinct (map userChannelID (links s)))"

section \<open>Example inputs\<close>

text \<open>Helpers that produce no embeds and no files.\<close>

definition helpers_none :: helpers where
  "helpers_none = \<lparr>generateEmbeds = (\<lambda>_. []), filesFromAttachments = (\<lambda>_ _. [])\<rparr>"

text \<open>A transport on which every call succeeds; a created message gets the id \<open>mirror\<close>.\<close>

definition rest_ok :: "snowflake \<Rightarrow> rest" where
  "rest_ok mirror =
     \<lparr>CreateMessage = (\<lambda>_ _. Inr \<lparr>ID = mirror, WebhookID = None, Attachments = []\<rparr>),
      UpdateMessage = (\<lambda>_ i _. Inr \<lparr>ID = i, WebhookID = None, Attachments = []\<rparr>),
      DeleteMessage = (\<lambda>_ _. None),
      SendTyping = (\<lambda>_. None)\<rparr>"

text \<open>A transport on which every call fails.\<close>

definition rest_down :: rest where
  "rest_down =
     \<lparr>CreateMessage = (\<lambda>_ _. Inl ''503''),
      UpdateMessage = (\<lambda>_ _ _. Inl ''503''),
      DeleteMessage = (\<lambda>_ _. Some ''503''),
      SendTyping = (\<lambda>_. Some ''503'')\<rparr>"

text \<open>An event for message \<open>i\<close> in channel \<open>ch\<close>, written by a user (no webhook).\<close>

definition staff_event :: "rest \<Rightarrow> snowflake \<Rightarrow> snowflake \<Rightarrow> guild_message_event" where
  "staff_event r ch i =
     \<lparr>Client = \<lparr>Rest = r\<rparr>, ChannelID = ch, MessageID = i,
      Message = \<lparr>ID = i, WebhookID = None, Attachments = []\<rparr>\<rparr>"

text \<open>The same event, written through a webhook.\<close>

definition webhook_event :: "rest \<Rightarrow> snowflake \<Rightarrow> snowflake \<Rightarrow> guild_message_event" where
  "webhook_event r ch i =
     \<lparr>Client = \<lparr>Rest = r\<rparr>, ChannelID = ch, MessageID = i,
      Message = \<lparr>ID = i, WebhookID = Some 9, Attachments = []\<rparr>\<rparr>"

text \<open>One open conversation, thread 100 with DM channel 200, and no mirrored message.\<close>

definition relay_linked :: ModMail where
  "relay_linked =
     \<lparr>ThreadDMs = [100 \<mapsto> 200], dmMessageIDs = Map.empty, threadMessageIDs = Map.empty\<rparr>"


text \<open>A message link left behind by a conversation that is no longer open.\<close>

definition relay_closed :: ModMail where
  "relay_closed =
     \<lparr>ThreadDMs = Map.empty, dmMessageIDs = [1 \<mapsto> 2], threadMessageIDs = Map.empty\<rparr>"

definition host_ok :: host where
  "host_ok = \<lparr>OpenGateway = None, OpenHTTPServer = None, SaveConfig = (\<lambda>_. None), signal = True\<rparr>"

definition butler_example :: Butler where
  "butler_example = \<lparr>ModMail = relay_linked, Config = \<lparr>ModMail' = \<lparr>Threads = Map.empty\<rparr>\<rparr>\<rparr>"

definition LinkStore_empty :: LinkStore where
  "LinkStore_empty = \<lparr>links = [], messageLinks = []\<rparr>"

section \<open>Echo-loop prevention\<close>

text \<open>
  C6. A message-created event whose message carries a webhook id is ignored: the state is
  returned as it was and the listener does nothing at all, in particular it issues no
  REST call.
\<close>

theorem webhook_message_ignored:
  "WebhookID (Message event) \<noteq> None \<Longrightarrow> guildMessageCreateListener h m event = (m, [])"
  by (simp add: guildMessageCreateListener_def)

theorem webhook_message_ignored_witness:
  "WebhookID (Message (webhook_event (rest_ok 2) 100 1)) \<noteq> None \<and>
   guildMessageCreateListener helpers_none relay_linked (webhook_event (rest_ok 2) 100 1) =
     (relay_linked, [])"
proof -
  have w: "WebhookID (Message (webhook_event (rest_ok 2) 100 1)) \<noteq> None"
    by (simp add: webhook_event_def)
  show ?thesis
    using w webhook_message_ignored [OF w, of helpers_none relay_linked] by simp
qed

section \<open>Recording a mirrored message\<close>

lemma create_success:
  assumes "WebhookID (Message event) = None"
      and "ThreadDMs m (ChannelID event) = Some dmID"
      and "CreateMessage (Rest (Client event)) dmID
             \<lparr>Embeds = generateEmbeds h (Message event),
              Files = filesFromAttachments h (Client event) (Attachments (Message event))\<rparr>
           = Inr msg"
  shows "guildMessageCreateListener h m event =
           (m\<lparr>dmMessageIDs := (dmMessageIDs m)(ID (Message event) \<mapsto> ID msg)\<rparr>,
            [Lock, MapLookup ThreadDMs_map (ChannelID event),
             RestCreateMessage dmID
               \<lparr>Embeds = generateEmbeds h (Message event),
                Files = filesFromAttachments h (Client event) (Attachments (Message event))\<rparr>,
             MapStore dmMessageIDs_map (ID (Message event)) (ID msg), Unlock])"
  using assms by (simp add: guildMessageCreateListener_def)

lemma create_failure:
  assumes "WebhookID (Message event) = None"
      and "ThreadDMs m (ChannelID event) = Some dmID"
      and "CreateMessage (Rest (Client event)) dmID
             \<lparr>Embeds = generateEmbeds h (Message event),
              Files = filesFromAttachments h (Client event) (Attachments (Message event))\<rparr>
           = Inl err"
  shows "guildMessageCreateListener h m event =
           (m, [Lock, MapLookup ThreadDMs_map (ChannelID event),
                RestCreateMessage dmID
                  \<lparr>Embeds = generateEmbeds h (Message event),
                   Files = filesFromAttachments h (Client event) (Attachments (Message event))\<rparr>,
                LogError ''failed to create dm message: '' err, Unlock])"
  using assms by (simp add: guildMessageCreateListener_def)


lemma example_create_run:
  "guildMessageCreateListener helpers_none relay_linked (staff_event (rest_ok mirror) 100 1) =
     (relay_linked\<lparr>dmMessageIDs := [1 \<mapsto> mirror]\<rparr>,
      [Lock, MapLookup ThreadDMs_map 100, RestCreateMessage 200 \<lparr>Embeds = [], Files = []\<rparr>,
       MapStore dmMessageIDs_map 1 mirror, Unlock])"
  by (simp add: guildMessageCreateListener_def helpers_none_def relay_linked_def
        staff_event_def rest_ok_def)

text \<open>
  C2, as stated, fails. Thread 100 is linked to DM channel 200, message 1 is created in the
  thread and mirrored as message 2. The store operation of the listener is there, but no
  map of the state has an entry under the mirror id 2.
\<close>

theorem mirror_id_not_resolvable_counterexample:
  "MapStore dmMessageIDs_map 1 2 \<in>
     set (snd (guildMessageCreateListener helpers_none relay_linked (staff_event (rest_ok 2) 100 1))) \<and>
   dmMessageIDs
     (fst (guildMessageCreateListener helpers_none relay_linked (staff_event (rest_ok 2) 100 1))) 2 = None \<and>
   threadMessageIDs
     (fst (guildMessageCreateListener helpers_none relay_linked (staff_event (rest_ok 2) 100 1))) 2 = None \<and>
   ThreadDMs
     (fst (guildMessageCreateListener helpers_none relay_linked (staff_event (rest_ok 2) 100 1))) 2 = None"
  unfolding example_create_run by (simp add: relay_linked_def)

text \<open>
  C2, amended. A message created in a linked thread by a user and mirrored with success is
  recorded in one direction: \<open>dmMessageIDs\<close> maps the origin id to the mirror id, so the
  pair is found from the origin id; nothing else in the state changes.
\<close>

theorem create_records_origin_to_mirror:
  assumes "WebhookID (Message event) = None"
      and "ThreadDMs m (ChannelID event) = Some dmID"
      and "CreateMessage (Rest (Client event)) dmID
             \<lparr>Embeds = generateEmbeds h (Message event),
              Files = filesFromAttachments h (Client event) (Attachments (Message event))\<rparr>
           = Inr msg"
  shows "fst (guildMessageCreateListener h m event) =
           m\<lparr>dmMessageIDs := (dmMessageIDs m)(ID (Message event) \<mapsto> ID msg)\<rparr> \<and>
         dmMessageIDs (fst (guildMessageCreateListener h m event)) (ID (Message event)) =
           Some (ID msg)"
  using create_success [OF assms] by simp

theorem create_records_origin_to_mirror_witness:
  "fst (guildMessageCreateListener helpers_none relay_linked (staff_event (rest_ok 2) 100 1)) =
     relay_linked\<lparr>dmMessageIDs := [1 \<mapsto> 2]\<rparr> \<and>
   dmMessageIDs
     (fst (guildMessageCreateListener helpers_none relay_linked (staff_event (rest_ok 2) 100 1))) 1 =
     Some 2"
proof -
  have a: "WebhookID (Message (staff_event (rest_ok 2) 100 1)) = None"
    by (simp add: staff_event_def)
  have b: "ThreadDMs relay_linked (ChannelID (staff_event (rest_ok 2) 100 1)) = Some 200"
    by (simp add: staff_event_def relay_linked_def)
  have c: "CreateMessage (Rest (Client (staff_event (rest_ok 2) 100 1))) 200
             \<lparr>Embeds = generateEmbeds helpers_none (Message (staff_event (rest_ok 2) 100 1)),
              Files = filesFromAttachments helpers_none (Client (staff_event (rest_ok 2) 100 1))
                        (Attachments (Message (staff_event (rest_ok 2) 100 1)))\<rparr>
           = Inr \<lparr>ID = 2, WebhookID = None, Attachments = []\<rparr>"
    by (simp add: staff_event_def rest_ok_def)
  show ?thesis
    using create_records_origin_to_mirror [OF a b c]
    by (simp add: staff_event_def relay_linked_def)
qed

text \<open>
  C5. When the mirrored create call fails, the state is returned as it was and the trace
  holds no write to a map: no message link is recorded.
\<close>

theorem failed_create_records_nothing:
  assumes "WebhookID (Message event) = None"
      and "ThreadDMs m (ChannelID event) = Some dmID"
      and "CreateMessage (Rest (Client event)) dmID
             \<lparr>Embeds = generateEmbeds h (Message event),
              Files = filesFromAttachments h (Client event) (Attachments (Message event))\<rparr>
           = Inl err"
  shows "fst (guildMessageCreateListener h m event) = m \<and>
         (\<forall>mp k v. MapStore mp k v \<notin> set (snd (guildMessageCreateListener h m event)))"
  using create_failure [OF assms] by simp

theorem failed_create_records_nothing_witness:
  "fst (guildMessageCreateListener helpers_none relay_linked (staff_event rest_down 100 1)) =
     relay_linked \<and>
   dmMessageIDs
     (fst (guildMessageCreateListener helpers_none relay_linked (staff_event rest_down 100 1))) 1 =
     None"
proof -
  have a: "WebhookID (Message (staff_event rest_down 100 1)) = None"
    by (simp add: staff_event_def)
  have b: "ThreadDMs relay_linked (ChannelID (staff_event rest_down 100 1)) = Some 200"
    by (simp add: staff_event_def relay_linked_def)
  have c: "CreateMessage (Rest (Client (staff_event rest_down 100 1))) 200
             \<lparr>Embeds = generateEmbeds helpers_none (Message (staff_event rest_down 100 1)),
              Files = filesFromAttachments helpers_none (Client (staff_event rest_down 100 1))
                        (Attachments (Message (staff_event rest_down 100 1)))\<rparr>
           = Inl ''503''"
    by (simp add: staff_event_def rest_down_def)
  show ?thesis
    using failed_create_records_nothing [OF a b c] by (simp add: relay_linked_def)
qed

section \<open>Updates and deletes\<close>

lemma update_state_unchanged: "fst (guildMessageUpdateListener h m event) = m"
  by (simp add: guildMessageUpdateListener_def Let_def split: option.splits sum.splits)

lemma delete_state:
  assumes "dmMessageIDs m (MessageID event) = Some dmMessageID"
  shows "fst (guildMessageDeleteListener m event) =
           m\<lparr>threadMessageIDs := (threadMessageIDs m)(ID (Message event) := None)\<rparr>"
  using assms
  by (simp add: guildMessageDeleteListener_def Let_def split: option.splits)

lemma delete_state_unchanged_if_key_absent:
  assumes "threadMessageIDs m (ID (Message event)) = None"
  shows "fst (guildMessageDeleteListener m event) = m"
proof (cases "dmMessageIDs m (MessageID event)")
  case None
  then show ?thesis
    by (simp add: guildMessageDeleteListener_def)
next
  case (Some dmMessageID)
  have "(threadMessageIDs m)(ID (Message event) := None) = threadMessageIDs m"
    using assms by (simp add: fun_upd_idem)
  then show ?thesis
    by (simp add: delete_state [OF Some])
qed


text \<open>
  C3. The delete listener removes the key \<open>event.Message.ID\<close> from \<open>threadMessageIDs\<close>
  and leaves \<open>dmMessageIDs\<close>, the map it has just read, as it is. Message 1 is created in
  thread 100 and mirrored as message 2, then message 1 is deleted: the mirrored delete is
  issued for message 2 in channel 200 and succeeds, and \<open>dmMessageIDs\<close> still maps 1 to 2.
\<close>

theorem delete_leaves_message_link:
  "dmMessageIDs
     (fst (guildMessageCreateListener helpers_none relay_linked (staff_event (rest_ok 2) 100 1))) 1
     = Some 2 \<and>
   snd (guildMessageDeleteListener
          (fst (guildMessageCreateListener helpers_none relay_linked (staff_event (rest_ok 2) 100 1)))
          (staff_event (rest_ok 2) 100 1))
     = [Lock, MapLookup dmMessageIDs_map 1, MapDelete threadMessageIDs_map 1,
        MapLookup ThreadDMs_map 100, RestDeleteMessage 200 2, Unlock] \<and>
   dmMessageIDs
     (fst (guildMessageDeleteListener
             (fst (guildMessageCreateListener helpers_none relay_linked (staff_event (rest_ok 2) 100 1)))
             (staff_event (rest_ok 2) 100 1))) 1
     = Some 2"
  unfolding example_create_run
  by (simp add: guildMessageDeleteListener_def relay_linked_def staff_event_def rest_ok_def
        lookup0_def)

text \<open>
  C10. An update for a message that has a message link, in a channel that has no link: the
  listener goes on and issues the update call, with channel id 0.
\<close>

theorem update_without_link_uses_zero_channel:
  assumes "dmMessageIDs m (ID (Message event)) = Some dmMessageID"
      and "ThreadDMs m (ChannelID event) = None"
  shows "RestUpdateMessage 0 dmMessageID
           \<lparr>Embeds' = Some (generateEmbeds h (Message event)),
            Files' = filesFromAttachments h (Client event) (Attachments (Message event))\<rparr>
         \<in> set (snd (guildMessageUpdateListener h m event))"
  using assms
  by (simp add: guildMessageUpdateListener_def lookup0_def Let_def split: sum.splits)

theorem update_without_link_uses_zero_channel_witness:
  "dmMessageIDs relay_closed (ID (Message (staff_event (rest_ok 2) 100 1))) = Some 2 \<and>
   ThreadDMs relay_closed (ChannelID (staff_event (rest_ok 2) 100 1)) = None \<and>
   snd (guildMessageUpdateListener helpers_none relay_closed (staff_event (rest_ok 2) 100 1)) =
     [Lock, MapLookup dmMessageIDs_map 1, MapLookup ThreadDMs_map 100,
      RestUpdateMessage 0 2 \<lparr>Embeds' = Some [], Files' = []\<rparr>, Unlock]"
proof -
  have a: "dmMessageIDs relay_closed (ID (Message (staff_event (rest_ok 2) 100 1))) = Some 2"
    by (simp add: relay_closed_def staff_event_def)
  have b: "ThreadDMs relay_closed (ChannelID (staff_event (rest_ok 2) 100 1)) = None"
    by (simp add: relay_closed_def staff_event_def)
  show ?thesis
    using a b update_without_link_uses_zero_channel [OF a b, of helpers_none]
    by (simp add: guildMessageUpdateListener_def lookup0_def staff_event_def rest_ok_def
          helpers_none_def)
qed



section \<open>The critical section\<close>

text \<open>
  C4, as stated, fails. Message 1 is created in the linked thread 100: the create call to
  the transport is made between \<open>Lock\<close> and \<open>Unlock\<close>.
\<close>

theorem rest_call_under_lock_counterexample:
  "snd (guildMessageCreateListener helpers_none relay_linked (staff_event (rest_ok 2) 100 1)) =
     [Lock, MapLookup ThreadDMs_map 100, RestCreateMessage 200 \<lparr>Embeds = [], Files = []\<rparr>,
      MapStore dmMessageIDs_map 1 2, Unlock] \<and>
   \<not> rest_outside_lock False
       (snd (guildMessageCreateListener helpers_none relay_linked (staff_event (rest_ok 2) 100 1)))"
  unfolding example_create_run by simp

text \<open>
  C4, amended. Each of the four listeners takes the mutex once and holds it until it
  returns (the create listener returns before taking it for a webhook message). The map
  lookups, the transport call and the map write after a successful create all lie in that
  one critical section: the lock is neither released for the transport call nor taken
  again for the write.
\<close>

theorem listeners_one_critical_section:
  "one_critical_section (snd (guildMessageCreateListener h m event)) \<and>
   one_critical_section (snd (guildMessageUpdateListener h m event)) \<and>
   one_critical_section (snd (guildMessageDeleteListener m event)) \<and>
   one_critical_section (snd (guildMemberTypingStartListener m tevent))"
  by (simp add: guildMessageCreateListener_def guildMessageUpdateListener_def
        guildMessageDeleteListener_def guildMemberTypingStartListener_def
        one_critical_section_def Let_def split: option.splits sum.splits)

theorem listeners_one_critical_section_witness:
  "one_critical_section
     [Lock, MapLookup ThreadDMs_map 100, RestCreateMessage 200 \<lparr>Embeds = [], Files = []\<rparr>,
      MapStore dmMessageIDs_map 1 2, Unlock]"
  using listeners_one_critical_section
          [of helpers_none relay_linked "staff_event (rest_ok 2) 100 1"]
  by (simp add: example_create_run)

section \<open>Shutdown\<close>

text \<open>
  C7. When the termination signal arrives, \<open>StartAndBlock\<close> returns, and on the way out
  the configuration it hands to \<open>SaveConfig\<close> has as \<open>Threads\<close> the link map of the
  relay, whole: every open link, and nothing else.
\<close>

theorem shutdown_saves_open_links:
  assumes "signal hst"
  shows "\<exists>b' t. StartAndBlock hst b = Some (b', t) \<and>
           DoSaveConfig (Config b') \<in> set t \<and>
           Threads (ModMail' (Config b')) = Close (ModMail b) \<and>
           Close (ModMail b) = ThreadDMs (ModMail b)"
  using assms
  by (auto simp: StartAndBlock_def shutdown_def Close_def Let_def split: option.splits)

theorem shutdown_saves_open_links_witness:
  "signal host_ok \<and>
   (\<exists>b' t. StartAndBlock host_ok butler_example = Some (b', t) \<and>
      DoSaveConfig (Config b') \<in> set t \<and>
      Threads (ModMail' (Config b')) 100 = Some 200)"
proof -
  have s: "signal host_ok"
    by (simp add: host_ok_def)
  have l: "ThreadDMs (ModMail butler_example) 100 = Some 200"
    by (simp add: butler_example_def relay_linked_def)
  show ?thesis
    using s l shutdown_saves_open_links [OF s, of butler_example] by auto
qed

section \<open>The bijection of the Link Store\<close>

lemma put_bijection:
  assumes "bijection s"
  shows "bijection (case put l s of Inl _ \<Rightarrow> s | Inr s' \<Rightarrow> s')"
proof (cases "list_ex (\<lambda>l'. staffChannelID l' = staffChannelID l \<or>
                              userChannelID l' = userChannelID l) (links s)")
  case True
  then show ?thesis
    using assms by (simp add: put_def)
next
  case False
  then have "staffChannelID l \<notin> staffChannelID ` set (links s)"
        and "userChannelID l \<notin> userChannelID ` set (links s)"
    by (auto simp: list_ex_iff)
  with False assms show ?thesis
    by (simp add: put_def bijection_def)
qed

lemma remove_bijection:
  assumes "bijection s"
  shows "bijection (remove l s)"
  using assms by (simp add: remove_def bijection_def distinct_map_filter)

lemma apply_op_bijection: "bijection s \<Longrightarrow> bijection (apply_op s x)"
  by (cases x) (simp_all add: put_bijection remove_bijection)

lemma foldl_apply_op_bijection: "bijection s \<Longrightarrow> bijection (foldl apply_op s ops)"
  by (induction ops arbitrary: s) (simp_all add: apply_op_bijection)

text \<open>
  C8. After any sequence of \<open>put\<close> and \<open>remove\<close> on the empty Link Store, no two links of
  the store share a \<open>staffChannelID\<close> and no two share a \<open>userChannelID\<close>.
\<close>

theorem link_store_bijection: "bijection (run_ops LinkStore_empty ops)"
  unfolding run_ops_def
  by (rule foldl_apply_op_bijection) (simp add: bijection_def LinkStore_empty_def)

theorem link_store_bijection_witness:
  "links (run_ops LinkStore_empty
            [Put \<lparr>staffChannelID = 100, userChannelID = 200\<rparr>,
             Put \<lparr>staffChannelID = 101, userChannelID = 200\<rparr>,
             Put \<lparr>staffChannelID = 101, userChannelID = 201\<rparr>,
             Remove \<lparr>staffChannelID = 100, userChannelID = 200\<rparr>]) =
     [\<lparr>staffChannelID = 101, userChannelID = 201\<rparr>] \<and>
   bijection (run_ops LinkStore_empty
                [Put \<lparr>staffChannelID = 100, userChannelID = 200\<rparr>,
                 Put \<lparr>staffChannelID = 101, userChannelID = 200\<rparr>,
                 Put \<lparr>staffChannelID = 101, userChannelID = 201\<rparr>,
                 Remove \<lparr>staffChannelID = 100, userChannelID = 200\<rparr>])"
  using link_store_bijection
          [of "[Put \<lparr>staffChannelID = 100, userChannelID = 200\<rparr>,
                Put \<lparr>staffChannelID = 101, userChannelID = 200\<rparr>,
                Put \<lparr>staffChannelID = 101, userChannelID = 201\<rparr>,
                Remove \<lparr>staffChannelID = 100, userChannelID = 200\<rparr>]"]
  by (simp add: run_ops_def put_def remove_def LinkStore_empty_def)

end
